theory Spec2Isabelle
  imports Main
begin

section \<open>JavaScript values and strings\<close>

text \<open>
  The handlers of the SAML routes read loosely typed values: a JSON body field, optional
  arguments, header and session entries that may be \<open>undefined\<close>. A body field is a
  \<open>jsval\<close>; an entry that is either a string or \<open>undefined\<close> is a \<open>string option\<close>
  with \<open>None\<close> for \<open>undefined\<close>. A \<open>char\<close> stands for one code unit below 256.
\<close>

datatype jsval =
    JUndefined
  | JNull
  | JBool bool
  | JNum int
  | JStr string
  | JArr "jsval list"
  | JObj "(string \<times> jsval) list"

fun truthy :: "jsval \<Rightarrow> bool" where
  "truthy JUndefined = False"
| "truthy JNull = False"
| "truthy (JBool b) = b"
| "truthy (JNum n) = (n \<noteq> 0)"
| "truthy (JStr s) = (s \<noteq> [])"
| "truthy (JArr xs) = True"
| "truthy (JObj kvs) = True"

fun typeof :: "jsval \<Rightarrow> string" where
  "typeof JUndefined = ''undefined''"
| "typeof JNull = ''object''"
| "typeof (JBool b) = ''boolean''"
| "typeof (JNum n) = ''number''"
| "typeof (JStr s) = ''string''"
| "typeof (JArr xs) = ''object''"
| "typeof (JObj kvs) = ''object''"

text \<open>Truthiness of a string-or-undefined entry, and the operator \<open>a || b\<close> on such entries.\<close>

definition truthyStr :: "string option \<Rightarrow> bool" where
  "truthyStr v = (case v of None \<Rightarrow> False | Some s \<Rightarrow> s \<noteq> [])"

definition orStr :: "string option \<Rightarrow> string option \<Rightarrow> string option" where
  "orStr a b = (if truthyStr a then a else b)"

text \<open>\<open>a || 'literal'\<close>: the result is always a string.\<close>

definition orDefault :: "string option \<Rightarrow> string \<Rightarrow> string" where
  "orDefault a d = (case a of None \<Rightarrow> d | Some s \<Rightarrow> if s = [] then d else s)"

text \<open>A template literal prints \<open>undefined\<close> for a missing value.\<close>

definition template :: "string option \<Rightarrow> string" where
  "template v = (case v of None \<Rightarrow> ''undefined'' | Some s \<Rightarrow> s)"

text \<open>
  \<open>String.prototype.trim\<close> removes white space and line terminators from both ends:
  TAB, LF, VT, FF, CR, SPACE and NBSP among the code units below 256.
\<close>

definition isWhiteSpace :: "char \<Rightarrow> bool" where
  "isWhiteSpace c \<longleftrightarrow>
     c \<in> set [CHR 0x09, CHR 0x0A, CHR 0x0B, CHR 0x0C, CHR 0x0D, CHR 0x20, CHR 0xA0]"

definition trim :: "string \<Rightarrow> string" where
  "trim s = rev (dropWhile isWhiteSpace (rev (dropWhile isWhiteSpace s)))"

definition startsWith :: "string \<Rightarrow> string \<Rightarrow> bool" where
  "startsWith s p \<longleftrightarrow> take (length p) s = p"

fun includesStr :: "string \<Rightarrow> string \<Rightarrow> bool" where
  "includesStr [] p = (p = [])"
| "includesStr (c # cs) p = (startsWith (c # cs) p \<or> includesStr cs p)"

text \<open>
  A regular expression \<open>/word/i\<close> without the \<open>u\<close> flag matches ASCII letters in either
  case and never lets a code unit above 127 stand for an ASCII letter.
\<close>

definition toLowerAscii :: "char \<Rightarrow> char" where
  "toLowerAscii c =
     (let n = (of_char c :: nat) in if 65 \<le> n \<and> n \<le> 90 then char_of (n + 32) else c)"

definition testIgnoreCase :: "string \<Rightarrow> string \<Rightarrow> bool" where
  "testIgnoreCase pat s = includesStr (map toLowerAscii s) (map toLowerAscii pat)"

text \<open>
  \<open>encodeURIComponent\<close>: letters, digits and \<open>- _ . ! ~ * ' ( )\<close> stay, every other code
  unit becomes the percent-escaped bytes of its UTF-8 form.
\<close>

definition hexDigit :: "nat \<Rightarrow> char" where
  "hexDigit n = (''0123456789ABCDEF'' ! (n mod 16))"

definition percentByte :: "nat \<Rightarrow> string" where
  "percentByte b = [CHR ''%'', hexDigit (b div 16), hexDigit (b mod 16)]"

definition uriUnreserved :: "char \<Rightarrow> bool" where
  "uriUnreserved c \<longleftrightarrow>
     (let n = (of_char c :: nat) in
        (65 \<le> n \<and> n \<le> 90) \<or> (97 \<le> n \<and> n \<le> 122) \<or> (48 \<le> n \<and> n \<le> 57) \<or>
        c \<in> set [CHR ''-'', CHR ''_'', CHR ''.'', CHR ''!'', CHR ''~'', CHR ''*'', CHR 0x27,
                  CHR ''('', CHR '')''])"

definition encodeChar :: "char \<Rightarrow> string" where
  "encodeChar c =
     (let n = (of_char c :: nat) in
        if uriUnreserved c then [c]
        else if n < 128 then percentByte n
        else percentByte (192 + n div 64) @ percentByte (128 + n mod 64))"

definition encodeURIComponent :: "string \<Rightarrow> string" where
  "encodeURIComponent s = concat (map encodeChar s)"

section \<open>Response envelopes (utils/response.js)\<close>

record errorObj =
  code :: string
  message :: string
  target :: jsval
  details :: jsval

record envelope =
  correlationId :: jsval
  data :: jsval
  error :: "errorObj option"

text \<open>
  \<open>uuid\<close> is the string the call of \<open>uuidv4()\<close> returns. A parameter with a default
  takes the default exactly when the argument is \<open>undefined\<close>; for \<open>correlationId\<close>
  the default \<open>null\<close> and \<open>undefined\<close> are both falsy, so \<open>correlationId || uuidv4()\<close>
  needs no separate case.
\<close>

definition successResponse :: "string \<Rightarrow> jsval \<Rightarrow> jsval \<Rightarrow> envelope" where
  "successResponse uuid d cid =
     \<lparr> correlationId = (if truthy cid then cid else JStr uuid),
       data = d,
       error = None \<rparr>"

definition errorResponse :: "string \<Rightarrow> string \<Rightarrow> string \<Rightarrow> jsval \<Rightarrow> jsval \<Rightarrow> jsval \<Rightarrow> envelope" where
  "errorResponse uuid c m tgt dts cid =
     (let tgt' = (if tgt = JUndefined then JNull else tgt);
          dts' = (if dts = JUndefined then JArr [] else dts) in
      \<lparr> correlationId = (if truthy cid then cid else JStr uuid),
        data = JNull,
        error = Some \<lparr> code = c, message = m, target = tgt', details = dts' \<rparr> \<rparr>)"

definition VALIDATION_ERROR :: string where "VALIDATION_ERROR = ''VALIDATION_ERROR''"
definition AUTHENTICATION_ERROR :: string where "AUTHENTICATION_ERROR = ''AUTHENTICATION_ERROR''"
definition AUTHORIZATION_ERROR :: string where "AUTHORIZATION_ERROR = ''AUTHORIZATION_ERROR''"
definition INTERNAL_ERROR :: string where "INTERNAL_ERROR = ''INTERNAL_ERROR''"

section \<open>Requests and sessions\<close>

text \<open>
  \<open>samlProfile\<close> is the object the SAML strategy hands to Passport (\<open>req.user\<close> after a
  login); \<open>sessionUser\<close> is the object \<open>acsHandler\<close> stores as \<open>req.session.user\<close>, which
  repeats the profile's fields and adds its own. \<open>establishmentId\<close> is always \<open>null\<close>.
\<close>

record samlProfile =
  nameID :: "string option"
  employeeNumber :: "string option"
  email :: "string option"
  firstName :: "string option"
  lastName :: "string option"

record sessionUser = samlProfile +
  workerId :: "string option"
  name :: string
  cardId :: "string option"
  establishmentId :: "unit option"
  role :: string

text \<open>
  The keys of \<open>req.session\<close> that the routes read or write. \<open>passport\<close> is the login
  session of Passport (the serialised user), \<open>sessionIsMobileApp\<close> the sticky flag
  \<open>req.session.isMobileApp\<close>.
\<close>

record session =
  samlUser :: "samlProfile option"
  pendingCardId :: "string option"
  passport :: "samlProfile option"
  user :: "sessionUser option"
  loginRole :: "string option"
  sessionIsMobileApp :: bool

text \<open>
  The session a request gets when the store knows no session for its cookie: no key is set.
\<close>

definition emptySession :: session where
  "emptySession =
     \<lparr> samlUser = None, pendingCardId = None, passport = None, user = None,
       loginRole = None, sessionIsMobileApp = False \<rparr>"

text \<open>
  Header names are the lower-case names Node delivers. \<open>reqUser\<close> is \<open>req.user\<close>,
  \<open>bodyCardId\<close> is \<open>req.body.cardId\<close>. The session middleware is installed before every
  route, so \<open>req.session\<close> is always an object. \<open>regenerated\<close> tells that a logout of
  this request regenerates the session: \<open>session\<close> is then the object the handler still
  writes to, and the store destroys it once the callbacks of the request have run.
\<close>

record request =
  headers :: "string \<rightharpoonup> string"
  query :: "string \<rightharpoonup> string"
  bodyCardId :: jsval
  reqUser :: "samlProfile option"
  sessionID :: string
  session :: session
  regenerated :: bool
  deviceType :: "string option"

record env =
  MOBILE_APP_URL :: "string option"
  CLIENT_URL :: "string option"
  SESSION_SECRET :: "string option"

datatype statusUser = SessionUser sessionUser | PassportUser samlProfile

datatype response =
    Json nat envelope
  | Send nat string
  | Redirect string
  | StatusJson bool "statusUser option"

section \<open>Device detection (utils/deviceDetection.js)\<close>

definition mobileOriginPatterns :: "string list" where
  "mobileOriginPatterns =
     [''http://localhost'', ''capacitor://localhost'', ''ionic://localhost'',
      ''http://localhost:8080'', ''file://'']"

definition mobileAppIdentifiers :: "string list" where
  "mobileAppIdentifiers =
     [''WorkerConnect'', ''WorkerConnectApp'', ''ReactNative'', ''Capacitor'', ''Cordova'',
      ''Ionic'']"

definition isMobileApp :: "request \<Rightarrow> bool" where
  "isMobileApp req =
     (if headers req ''x-app-platform'' = Some ''mobile'' \<or>
         headers req ''x-client-type'' = Some ''mobile-app'' then True
      else if (case orStr (headers req ''origin'') (headers req ''referer'') of
                 None \<Rightarrow> False
               | Some origin \<Rightarrow>
                   origin \<noteq> [] \<and>
                   list_ex (\<lambda>pattern. startsWith origin pattern) mobileOriginPatterns)
           then True
      else if (let userAgent = orDefault (headers req ''user-agent'') [] in
               list_ex (\<lambda>identifier. includesStr userAgent identifier) mobileAppIdentifiers)
           then True
      else if query req ''platform'' = Some ''mobile'' \<or> query req ''app'' = Some ''true''
           then True
      else if sessionIsMobileApp (session req) then True
      else False)"

definition mobilePatterns :: "string list" where
  "mobilePatterns =
     [''Android'', ''webOS'', ''iPhone'', ''iPad'', ''iPod'', ''BlackBerry'', ''Windows Phone'',
      ''Mobile'']"

definition isMobileBrowser :: "request \<Rightarrow> bool" where
  "isMobileBrowser req =
     (let userAgent = orDefault (headers req ''user-agent'') [];
          isMobile = list_ex (\<lambda>pattern. testIgnoreCase pattern userAgent) mobilePatterns
      in isMobile \<and> \<not> isMobileApp req)"

definition isDesktopBrowser :: "request \<Rightarrow> bool" where
  "isDesktopBrowser req = (\<not> isMobileApp req \<and> \<not> isMobileBrowser req)"

definition getRedirectUrl :: "env \<Rightarrow> request \<Rightarrow> string \<Rightarrow> string" where
  "getRedirectUrl e req path =
     (let isMobile = isMobileApp req;
          cleanPath = (if startsWith path ''/'' then path else ''/'' @ path)
      in if isMobile then orDefault (MOBILE_APP_URL e) ''http://localhost'' @ cleanPath
         else orDefault (CLIENT_URL e) ''http://localhost:5173'' @ cleanPath)"

definition detectDeviceMiddleware :: "request \<Rightarrow> request" where
  "detectDeviceMiddleware req =
     (if isMobileApp req then
        req\<lparr> deviceType := Some ''mobile-app'',
             session := (session req)\<lparr> sessionIsMobileApp := True \<rparr> \<rparr>
      else if isMobileBrowser req then req\<lparr> deviceType := Some ''mobile-browser'' \<rparr>
      else req\<lparr> deviceType := Some ''desktop-browser'' \<rparr>)"

section \<open>Session token middleware (server.js)\<close>

definition sessionTokenMiddleware :: "request \<Rightarrow> request" where
  "sessionTokenMiddleware req =
     (if \<not> truthyStr (headers req ''cookie'') \<and> truthyStr (headers req ''x-session-token'')
      then (let token = template (headers req ''x-session-token'')
            in req\<lparr> headers := (headers req)(''cookie'' \<mapsto> ''saml.sid='' @ token) \<rparr>)
      else req)"

text \<open>
  The secret \<open>server.js\<close> hands to the session middleware, which verifies the cookie and
  the token with it: \<open>process.env.SESSION_SECRET\<close> or else a built-in default.
\<close>

definition sessionSecret :: "env \<Rightarrow> string" where
  "sessionSecret e = orDefault (SESSION_SECRET e) ''your-session-secret-change-in-production''"

section \<open>Passport and cookie-signature, as the routes use them\<close>

text \<open>
  These calls go into libraries. The handlers call \<open>req.logout\<close> with a callback, the
  interface of Passport 0.6 and later: it sets \<open>req.user\<close> to \<open>null\<close> and removes the user
  of the login session at once, then saves the session and regenerates it, which destroys
  the stored session, \<open>user\<close> and \<open>pendingCardId\<close> included. Saving and regenerating run
  in callbacks, after the synchronous statements of the handler that follow the call, so
  \<open>logout\<close> marks the request as \<open>regenerated\<close> and \<open>laterSession\<close> gives the session a
  later request with the same cookie finds. \<open>req.isAuthenticated()\<close> tells whether
  \<open>req.user\<close> is set; at the start of a request Passport fills \<open>req.user\<close> from the login
  session. \<open>signature.sign(val, secret)\<close> returns \<open>val + '.' + mac\<close> and throws a
  \<open>TypeError\<close> when the secret is not a string (\<open>None\<close> below); \<open>hmac secret val\<close> is
  the base64 digest it appends, a parameter of the model.
\<close>

definition logout :: "request \<Rightarrow> request" where
  "logout req =
     req\<lparr> reqUser := None, session := (session req)\<lparr> passport := None \<rparr>,
          regenerated := True \<rparr>"

definition laterSession :: "request \<Rightarrow> session" where
  "laterSession req = (if regenerated req then emptySession else session req)"

definition isAuthenticated :: "request \<Rightarrow> bool" where
  "isAuthenticated req = (reqUser req \<noteq> None)"

definition passportSession :: "request \<Rightarrow> request" where
  "passportSession req = req\<lparr> reqUser := passport (session req) \<rparr>"

definition signatureSign :: "(string \<Rightarrow> string \<Rightarrow> string) \<Rightarrow> string \<Rightarrow> string option \<Rightarrow> string option" where
  "signatureSign hmac val secret =
     (case secret of None \<Rightarrow> None | Some k \<Rightarrow> Some (val @ ''.'' @ hmac k val))"

section \<open>SAML middleware (middleware/samlAuth.js)\<close>

text \<open>\<open>requireSamlAuth\<close> answers itself (\<open>Some\<close>) or calls \<open>next()\<close> (\<open>None\<close>).\<close>

definition requireSamlAuth :: "string \<Rightarrow> request \<Rightarrow> response option" where
  "requireSamlAuth uuid req =
     (if reqUser req = None \<or> samlUser (session req) = None then
        Some (Json 401 (errorResponse uuid AUTHENTICATION_ERROR
                ''SAML authentication required. Please login via /saml/login''
                (JStr ''authentication'') JUndefined JUndefined))
      else None)"

definition clearSamlSession :: "request \<Rightarrow> request" where
  "clearSamlSession req =
     req\<lparr> session := (session req)\<lparr> samlUser := None, pendingCardId := None,
                                      passport := None \<rparr> \<rparr>"

section \<open>SAML routes (routes/saml.js)\<close>

text \<open>
  A handler takes the request and returns the request as it has left it, with the response.
  \<open>saveErr\<close> tells whether \<open>req.session.save\<close> reports an error. An exception inside a
  \<open>try\<close> block is the branch its \<open>catch\<close> block takes: in \<open>acsHandler\<close> reading
  \<open>samlUser.nameID\<close> (the profile \<open>req.user\<close>) throws when \<open>req.user\<close> is missing, and a throwing
  \<open>signature.sign\<close> leaves the redirect URL without a token.
\<close>

definition dashboardPath :: "string \<Rightarrow> string" where
  "dashboardPath targetRole =
     (if targetRole = ''establishment'' then ''/dashboard/establishment''
      else if targetRole = ''department'' then ''/dashboard/department''
      else ''/dashboard/worker'')"

definition appendSessionToken :: "(string \<Rightarrow> string \<Rightarrow> string) \<Rightarrow> env \<Rightarrow> request \<Rightarrow> string \<Rightarrow> string" where
  "appendSessionToken hmac e req redirectUrl =
     (case signatureSign hmac (sessionID req) (SESSION_SECRET e) of
        None \<Rightarrow> redirectUrl
      | Some signed \<Rightarrow>
          (let signedSessionId = ''s:'' @ signed;
               separator = (if includesStr redirectUrl ''?'' then ''&'' else ''?'')
           in redirectUrl @ separator @ ''session_token='' @
              encodeURIComponent signedSessionId))"

definition makeSessionUser :: "samlProfile \<Rightarrow> session \<Rightarrow> sessionUser" where
  "makeSessionUser profile sess =
     \<lparr> nameID = nameID profile,
       employeeNumber = employeeNumber profile,
       email = email profile,
       firstName = firstName profile,
       lastName = lastName profile,
       workerId = employeeNumber profile,
       name = trim (template (firstName profile) @ '' '' @ orDefault (lastName profile) []),
       cardId = employeeNumber profile,
       establishmentId = None,
       role = orDefault (loginRole sess) ''worker'' \<rparr>"

definition acsHandler :: "env \<Rightarrow> (string \<Rightarrow> string \<Rightarrow> string) \<Rightarrow> string \<Rightarrow> bool \<Rightarrow> request \<Rightarrow> request \<times> response" where
  "acsHandler e hmac uuid saveErr req =
     (case reqUser req of
        None \<Rightarrow>
          (clearSamlSession req,
           Json 500 (errorResponse uuid INTERNAL_ERROR ''SAML authentication failed''
                       (JStr ''saml'') JUndefined JUndefined))
      | Some profile \<Rightarrow>
          (let pending = pendingCardId (session req);
               userIdentifier = orStr (employeeNumber profile) (nameID profile)
           in if truthyStr pending \<and> userIdentifier \<noteq> pending then
                (logout (clearSamlSession req),
                 Json 403 (errorResponse uuid AUTHORIZATION_ERROR
                             ''Card ID does not match authenticated user. Access denied.''
                             (JStr ''cardValidation'') JUndefined JUndefined))
              else
                (let sess1 = (if truthyStr pending
                              then (session req)\<lparr> pendingCardId := None \<rparr>
                              else session req);
                     newUser = makeSessionUser profile sess1;
                     req1 = req\<lparr> session := sess1\<lparr> user := Some newUser \<rparr> \<rparr>
                 in if saveErr then (req1, Send 500 ''Session save error'')
                    else
                      (let targetRole = role newUser;
                           redirectPath = dashboardPath targetRole;
                           redirectUrl = getRedirectUrl e req1 redirectPath
                       in (req1, Redirect (appendSessionToken hmac e req1 redirectUrl))))))"

text \<open>
  \<open>POST /logout\<close>: the session is \<open>None\<close> in the result once
  \<open>req.session.destroy\<close> has run.
\<close>

definition isJsonRequest :: "request \<Rightarrow> bool" where
  "isJsonRequest req =
     (case headers req ''content-type'' of
        None \<Rightarrow> False
      | Some ct \<Rightarrow> includesStr ct ''application/json'')"

definition logoutRoute :: "string \<Rightarrow> request \<Rightarrow> session option \<times> response" where
  "logoutRoute uuid req =
     (case requireSamlAuth uuid req of
        Some resp \<Rightarrow> (Some (session req), resp)
      | None \<Rightarrow>
          (let req1 = logout (clearSamlSession req)
           in (None,
               if isJsonRequest req1 then
                 Json 200 (successResponse uuid
                             (JObj [(''message'', JStr ''Logout successful''),
                                    (''redirectTo'', JStr ''/login'')]) JUndefined)
               else Redirect ''/login'')))"

text \<open>
  \<open>POST /card-scan\<close>. The guard of the handler is
  \<open>!cardId || typeof cardId !== 'string' || cardId.trim().length === 0\<close>; its last
  disjunct is reached by strings only.
\<close>

definition invalidCardId :: "jsval \<Rightarrow> bool" where
  "invalidCardId v =
     (if \<not> truthy v then True
      else if typeof v \<noteq> ''string'' then True
      else (case v of JStr s \<Rightarrow> length (trim s) = 0 | _ \<Rightarrow> True))"

definition cardScan :: "string \<Rightarrow> bool \<Rightarrow> request \<Rightarrow> request \<times> response" where
  "cardScan uuid saveErr req =
     (let scanned = bodyCardId req
      in if invalidCardId scanned then
           (req, Json 400 (errorResponse uuid VALIDATION_ERROR
                             ''cardId is required and must be a non-empty string''
                             (JStr ''cardId'') JUndefined JUndefined))
         else
           (let trimmedCardId = (case scanned of JStr s \<Rightarrow> trim s | _ \<Rightarrow> []);
                isLoggedIn = (samlUser (session req) \<noteq> None \<and> reqUser req \<noteq> None);
                req1 = (if isLoggedIn then logout (clearSamlSession req) else req);
                req2 = req1\<lparr> session :=
                             (session req1)\<lparr> pendingCardId := Some trimmedCardId \<rparr> \<rparr>
            in if saveErr then
                 (req2, Json 500 (errorResponse uuid INTERNAL_ERROR ''Failed to save session''
                                    (JStr ''session'') JUndefined JUndefined))
               else if isJsonRequest req2 then
                 (req2, Json 200 (successResponse uuid
                                    (JObj [(''message'',
                                            JStr ''Card scan received. Redirecting to SAML login.''),
                                           (''cardId'', JStr trimmedCardId),
                                           (''redirectTo'', JStr ''/saml/login'')]) JUndefined))
               else (req2, Redirect ''/saml/login'')))"

definition statusRoute :: "request \<Rightarrow> response" where
  "statusRoute req =
     (if isAuthenticated req \<or> user (session req) \<noteq> None then
        StatusJson True
          (case user (session req) of
             Some u \<Rightarrow> Some (SessionUser u)
           | None \<Rightarrow> map_option PassportUser (reqUser req))
      else StatusJson False None)"

section \<open>Properties of envelopes and concrete requests used below\<close>

text \<open>
  A field of an envelope counts as non-null when it is neither \<open>null\<close> nor
  \<open>undefined\<close> (\<open>JSON.stringify\<close> drops an \<open>undefined\<close> field).
\<close>

definition nonNull :: "jsval \<Rightarrow> bool" where
  "nonNull v \<longleftrightarrow> v \<noteq> JNull \<and> v \<noteq> JUndefined"

definition exactlyOneNonNull :: "envelope \<Rightarrow> bool" where
  "exactlyOneNonNull r \<longleftrightarrow> (nonNull (data r) \<noteq> (error r \<noteq> None))"

definition emptyRequest :: request where
  "emptyRequest =
     \<lparr> headers = Map.empty, query = Map.empty, bodyCardId = JUndefined, reqUser = None,
       sessionID = ''sid1'', session = emptySession, regenerated = False,
       deviceType = None \<rparr>"

text \<open>A request that carries the platform header and otherwise looks like a desktop browser.\<close>

definition desktopLookingMobile :: request where
  "desktopLookingMobile =
     emptyRequest\<lparr> headers :=
       [''x-app-platform'' \<mapsto> ''mobile'',
        ''origin'' \<mapsto> ''https://app.example.com'',
        ''user-agent'' \<mapsto> ''Mozilla/5.0 (Windows NT 10.0; Win64; x64)''] \<rparr>"

text \<open>Bodies of \<open>POST /card-scan\<close>: a padded card number, blanks only, a number.\<close>

definition paddedScan :: request where
  "paddedScan = emptyRequest\<lparr> bodyCardId := JStr ''  12345 '' \<rparr>"

definition blankScan :: request where
  "blankScan = emptyRequest\<lparr> bodyCardId := JStr ''   '' \<rparr>"

definition numberScan :: request where
  "numberScan = emptyRequest\<lparr> bodyCardId := JNum 12345 \<rparr>"

text \<open>Requests that carry a session token in the query, in the header, and beside a cookie.\<close>

definition queryTokenOnly :: request where
  "queryTokenOnly = emptyRequest\<lparr> query := [''session_token'' \<mapsto> ''s:sid1.bWFj''] \<rparr>"

definition headerTokenOnly :: request where
  "headerTokenOnly = emptyRequest\<lparr> headers := [''x-session-token'' \<mapsto> ''s:sid1.bWFj''] \<rparr>"

definition cookieAndToken :: request where
  "cookieAndToken =
     emptyRequest\<lparr> headers := [''cookie'' \<mapsto> ''saml.sid=s:sid2.eHl6'',
                                 ''x-session-token'' \<mapsto> ''s:sid1.bWFj''] \<rparr>"

text \<open>
  A profile with an employee number, a browser request on which the assertion consumer
  finds that profile and the pending card 12345, a direct login from the mobile app, two
  environments and a stand-in for the digest.
\<close>

definition cardHolder :: samlProfile where
  "cardHolder =
     \<lparr> nameID = Some ''G-f858647f'', employeeNumber = Some ''12345'',
       email = Some ''asha@example.com'', firstName = Some ''Asha'', lastName = Some ''Rao'' \<rparr>"

definition scanThenLogin :: request where
  "scanThenLogin =
     emptyRequest\<lparr> reqUser := Some cardHolder,
                   session := emptySession\<lparr> pendingCardId := Some ''12345'',
                                            passport := Some cardHolder,
                                            loginRole := Some ''worker'' \<rparr> \<rparr>"

definition mobileEstablishmentLogin :: request where
  "mobileEstablishmentLogin =
     emptyRequest\<lparr> headers := [''x-app-platform'' \<mapsto> ''mobile''],
                   reqUser := Some cardHolder,
                   session := emptySession\<lparr> passport := Some cardHolder,
                                            loginRole := Some ''establishment'' \<rparr> \<rparr>"

definition exampleEnv :: env where
  "exampleEnv =
     \<lparr> MOBILE_APP_URL = Some ''workerconnect://app'', CLIENT_URL = None,
       SESSION_SECRET = Some ''k'' \<rparr>"

definition envNoSecret :: env where
  "envNoSecret = \<lparr> MOBILE_APP_URL = None, CLIENT_URL = None, SESSION_SECRET = None \<rparr>"

definition exampleHmac :: "string \<Rightarrow> string \<Rightarrow> string" where
  "exampleHmac k v = ''bWFj''"

text \<open>
  A profile without an employee number, found by the assertion consumer beside the pending
  card 12345. The card holder logs in directly; on the session this login leaves behind, a
  new card 67890 is scanned and a logout is posted. Another profile, employee 99999, found
  by the assertion consumer beside the pending card 12345. A later request on a session
  begins with Passport filling \<open>req.user\<close>.
\<close>

definition nameIdOnlyProfile :: samlProfile where
  "nameIdOnlyProfile =
     \<lparr> nameID = Some ''12345'', employeeNumber = None, email = Some ''ravi@example.com'',
       firstName = Some ''Ravi'', lastName = Some ''Das'' \<rparr>"

definition scanThenNameIdLogin :: request where
  "scanThenNameIdLogin =
     emptyRequest\<lparr> reqUser := Some nameIdOnlyProfile,
                   session := emptySession\<lparr> pendingCardId := Some ''12345'',
                                            passport := Some nameIdOnlyProfile \<rparr> \<rparr>"

definition directLogin :: request where
  "directLogin =
     emptyRequest\<lparr> reqUser := Some cardHolder,
                   session := emptySession\<lparr> passport := Some cardHolder \<rparr> \<rparr>"

definition establishedSession :: session where
  "establishedSession = session (fst (acsHandler exampleEnv exampleHmac ''8c1f'' False directLogin))"

definition rescan :: request where
  "rescan =
     passportSession (emptyRequest\<lparr> bodyCardId := JStr ''67890'',
                                    session := establishedSession \<rparr>)"

definition logoutAfterLogin :: request where
  "logoutAfterLogin =
     passportSession (emptyRequest\<lparr> headers := [''content-type'' \<mapsto> ''application/json''],
                                    session := establishedSession \<rparr>)"



section \<open>Device classification\<close>

lemma isMobileApp_session:
  "sessionIsMobileApp s = sessionIsMobileApp (session req) \<Longrightarrow>
   isMobileApp (req\<lparr> session := s \<rparr>) = isMobileApp req"
  by (simp add: isMobileApp_def)

text \<open>
  Claim C8. A request whose \<open>X-App-Platform\<close> header equals \<open>mobile\<close> is classified as
  the mobile app, whatever its Origin, Referer, User-Agent, query parameters and sticky
  session flag are: \<open>isMobileApp\<close> holds, neither browser class does, and
  \<open>detectDeviceMiddleware\<close> records \<open>mobile-app\<close>.
\<close>

theorem platform_header_wins:
  assumes "headers req ''x-app-platform'' = Some ''mobile''"
  shows "isMobileApp req \<and> \<not> isMobileBrowser req \<and> \<not> isDesktopBrowser req \<and>
         deviceType (detectDeviceMiddleware req) = Some ''mobile-app''"
  using assms
  by (simp add: isMobileApp_def isMobileBrowser_def isDesktopBrowser_def
        detectDeviceMiddleware_def)

text \<open>The header decides on a request whose Origin and User-Agent are a desktop browser's.\<close>

theorem platform_header_wins_witness:
  "headers desktopLookingMobile ''x-app-platform'' = Some ''mobile'' \<and>
   isMobileApp desktopLookingMobile \<and> \<not> isMobileBrowser desktopLookingMobile \<and>
   \<not> isDesktopBrowser desktopLookingMobile \<and>
   deviceType (detectDeviceMiddleware desktopLookingMobile) = Some ''mobile-app''"
proof -
  have h: "headers desktopLookingMobile ''x-app-platform'' = Some ''mobile''"
    by (simp add: desktopLookingMobile_def emptyRequest_def)
  show ?thesis using h platform_header_wins [OF h] by simp
qed

section \<open>Response envelopes\<close>

text \<open>
  \<open>successResponse\<close> passes its argument through, so a \<open>null\<close> argument gives an
  envelope in which \<open>data\<close> and \<open>error\<close> are both \<open>null\<close>.
\<close>

theorem success_null_counterexample:
  "\<not> exactlyOneNonNull (successResponse ''8c1f'' JNull JUndefined)"
  by (simp add: exactlyOneNonNull_def nonNull_def successResponse_def)

text \<open>
  Claim C9, as amended. \<open>successResponse\<close> always returns \<open>error = null\<close> and
  \<open>data\<close> equal to its argument, so exactly one of the two fields is non-null precisely
  when that argument is non-null; \<open>errorResponse\<close> always returns \<open>data = null\<close> and an
  error object with \<open>code\<close>, \<open>message\<close>, \<open>target\<close> (default \<open>null\<close>) and
  \<open>details\<close> (default \<open>[]\<close>), so exactly one field is non-null.
\<close>

theorem response_envelope_fields:
  "error (successResponse uuid d cid) = None \<and>
   data (successResponse uuid d cid) = d \<and>
   (exactlyOneNonNull (successResponse uuid d cid) \<longleftrightarrow> nonNull d) \<and>
   data (errorResponse uuid c m tgt dts cid) = JNull \<and>
   error (errorResponse uuid c m tgt dts cid) =
     Some \<lparr> code = c, message = m,
            target = (if tgt = JUndefined then JNull else tgt),
            details = (if dts = JUndefined then JArr [] else dts) \<rparr> \<and>
   exactlyOneNonNull (errorResponse uuid c m tgt dts cid)"
  by (simp add: exactlyOneNonNull_def nonNull_def successResponse_def errorResponse_def Let_def)

theorem response_envelope_fields_witness:
  "exactlyOneNonNull (successResponse ''8c1f'' (JStr ''ok'') JUndefined) \<and>
   data (successResponse ''8c1f'' (JStr ''ok'') JUndefined) = JStr ''ok'' \<and>
   error (errorResponse ''8c1f'' ''NOT_FOUND'' ''no such worker'' JUndefined JUndefined JUndefined) =
     Some \<lparr> code = ''NOT_FOUND'', message = ''no such worker'', target = JNull,
            details = JArr [] \<rparr>"
  using response_envelope_fields [where uuid = "''8c1f''" and d = "JStr ''ok''"
      and cid = JUndefined and c = "''NOT_FOUND''" and m = "''no such worker''"
      and tgt = JUndefined and dts = JUndefined]
  by (simp add: nonNull_def)

section \<open>Card scans\<close>

lemma last_dropWhile:
  "dropWhile P xs \<noteq> [] \<Longrightarrow> last (dropWhile P xs) = last xs"
  by (induction xs) auto

lemma trim_edges:
  assumes "trim s \<noteq> []"
  shows "\<not> isWhiteSpace (hd (trim s)) \<and> \<not> isWhiteSpace (last (trim s))"
proof -
  let ?t = "dropWhile isWhiteSpace s"
  let ?r = "dropWhile isWhiteSpace (rev ?t)"
  have r: "?r \<noteq> []" using assms by (simp add: trim_def)
  have t: "?t \<noteq> []"
  proof
    assume e: "?t = []"
    have "?r = []" unfolding e by simp
    with r show False by contradiction
  qed
  have "last (trim s) = hd ?r" using r by (simp add: trim_def last_rev)
  moreover have "\<not> isWhiteSpace (hd ?r)" using r by (rule hd_dropWhile)
  moreover have "hd (trim s) = last ?r" using r by (simp add: trim_def hd_rev)
  moreover have "last ?r = hd ?t" using r t by (simp add: last_dropWhile last_rev)
  moreover have "\<not> isWhiteSpace (hd ?t)" using t by (rule hd_dropWhile)
  ultimately show ?thesis by simp
qed

lemma invalidCardId_iff:
  "invalidCardId v \<longleftrightarrow> (\<forall>s. v = JStr s \<longrightarrow> trim s = [])"
  by (cases v) (auto simp: invalidCardId_def trim_def)

lemma cardScan_invalid:
  "invalidCardId (bodyCardId req) \<Longrightarrow>
   cardScan uuid saveErr req =
     (req, Json 400 (errorResponse uuid VALIDATION_ERROR
                       ''cardId is required and must be a non-empty string''
                       (JStr ''cardId'') JUndefined JUndefined))"
  by (simp add: cardScan_def)

lemma cardScan_pending:
  "bodyCardId req = JStr s \<Longrightarrow> trim s \<noteq> [] \<Longrightarrow>
   pendingCardId (session (fst (cardScan uuid saveErr req))) = Some (trim s)"
  by (simp add: cardScan_def invalidCardId_iff Let_def)

lemma acsHandler_mismatch_iff:
  assumes "reqUser req = Some p" and "pendingCardId (session req) = Some c" and "c \<noteq> []"
  shows "snd (acsHandler e hmac uuid saveErr req) =
           Json 403 (errorResponse uuid AUTHORIZATION_ERROR
                       ''Card ID does not match authenticated user. Access denied.''
                       (JStr ''cardValidation'') JUndefined JUndefined)
         \<longleftrightarrow> orStr (employeeNumber p) (nameID p) \<noteq> Some c"
  using assms by (simp add: acsHandler_def Let_def truthyStr_def)

text \<open>
  Claim C10. When \<open>cardId\<close> is a string whose trimmed form is not empty,
  \<open>POST /card-scan\<close> stores the trimmed form as the pending card: it has no white space
  at either end, and the assertion consumer later rejects a login exactly when the
  asserted identifier differs from that trimmed value. A \<open>cardId\<close> that is missing, not
  a string, or white space only is answered with 400 and the request, its session
  included, is left as it was.
\<close>

theorem cardScan_stores_trimmed:
  "(bodyCardId req = JStr s \<and> trim s \<noteq> [] \<longrightarrow>
      pendingCardId (session (fst (cardScan uuid saveErr req))) = Some (trim s) \<and>
      \<not> isWhiteSpace (hd (trim s)) \<and> \<not> isWhiteSpace (last (trim s)) \<and>
      (\<forall>e hmac uuid' saveErr' p.
         (snd (acsHandler e hmac uuid' saveErr'
                 ((fst (cardScan uuid saveErr req))\<lparr> reqUser := Some p \<rparr>)) =
            Json 403 (errorResponse uuid' AUTHORIZATION_ERROR
                        ''Card ID does not match authenticated user. Access denied.''
                        (JStr ''cardValidation'') JUndefined JUndefined))
         \<longleftrightarrow> orStr (employeeNumber p) (nameID p) \<noteq> Some (trim s))) \<and>
   ((\<forall>s. bodyCardId req = JStr s \<longrightarrow> trim s = []) \<longrightarrow>
      cardScan uuid saveErr req =
        (req, Json 400 (errorResponse uuid VALIDATION_ERROR
                          ''cardId is required and must be a non-empty string''
                          (JStr ''cardId'') JUndefined JUndefined)))"
proof (intro conjI impI allI)
  assume a: "bodyCardId req = JStr s \<and> trim s \<noteq> []"
  then show p: "pendingCardId (session (fst (cardScan uuid saveErr req))) = Some (trim s)"
    by (simp add: cardScan_pending)
  from a show "\<not> isWhiteSpace (hd (trim s))" and "\<not> isWhiteSpace (last (trim s))"
    by (simp_all add: trim_edges)
  fix e hmac uuid' saveErr' p
  let ?req' = "(fst (cardScan uuid saveErr req))\<lparr> reqUser := Some p \<rparr>"
  have "reqUser ?req' = Some p" by simp
  moreover have "pendingCardId (session ?req') = Some (trim s)" using p by simp
  ultimately show "(snd (acsHandler e hmac uuid' saveErr' ?req') =
            Json 403 (errorResponse uuid' AUTHORIZATION_ERROR
                        ''Card ID does not match authenticated user. Access denied.''
                        (JStr ''cardValidation'') JUndefined JUndefined))
         \<longleftrightarrow> orStr (employeeNumber p) (nameID p) \<noteq> Some (trim s)"
    using a by (intro acsHandler_mismatch_iff) simp_all
next
  assume "\<forall>s. bodyCardId req = JStr s \<longrightarrow> trim s = []"
  then have "invalidCardId (bodyCardId req)" by (simp add: invalidCardId_iff)
  then show "cardScan uuid saveErr req =
        (req, Json 400 (errorResponse uuid VALIDATION_ERROR
                          ''cardId is required and must be a non-empty string''
                          (JStr ''cardId'') JUndefined JUndefined))"
    by (rule cardScan_invalid)
qed

lemma trim_padded: "trim ''  12345 '' = ''12345''"
  by (simp add: trim_def isWhiteSpace_def)

lemma trim_blank: "trim ''   '' = []"
  by (simp add: trim_def isWhiteSpace_def)

theorem cardScan_stores_trimmed_witness:
  "pendingCardId (session (fst (cardScan ''8c1f'' False paddedScan))) = Some ''12345'' \<and>
   cardScan ''8c1f'' False blankScan =
     (blankScan, Json 400 (errorResponse ''8c1f'' VALIDATION_ERROR
                          ''cardId is required and must be a non-empty string''
                          (JStr ''cardId'') JUndefined JUndefined)) \<and>
   cardScan ''8c1f'' False numberScan =
     (numberScan, Json 400 (errorResponse ''8c1f'' VALIDATION_ERROR
                          ''cardId is required and must be a non-empty string''
                          (JStr ''cardId'') JUndefined JUndefined)) \<and>
   cardScan ''8c1f'' False emptyRequest =
     (emptyRequest, Json 400 (errorResponse ''8c1f'' VALIDATION_ERROR
                          ''cardId is required and must be a non-empty string''
                          (JStr ''cardId'') JUndefined JUndefined))"
proof -
  have b1: "bodyCardId paddedScan = JStr ''  12345 ''" by (simp add: paddedScan_def)
  have b2: "\<forall>s. bodyCardId blankScan = JStr s \<longrightarrow> trim s = []"
    by (simp add: blankScan_def trim_blank)
  have b3: "\<forall>s. bodyCardId numberScan = JStr s \<longrightarrow> trim s = []"
    by (simp add: numberScan_def)
  have b4: "\<forall>s. bodyCardId emptyRequest = JStr s \<longrightarrow> trim s = []"
    by (simp add: emptyRequest_def)
  show ?thesis
    using cardScan_stores_trimmed [of paddedScan "''  12345 ''" "''8c1f''" False]
      cardScan_stores_trimmed [of blankScan "''''" "''8c1f''" False]
      cardScan_stores_trimmed [of numberScan "''''" "''8c1f''" False]
      cardScan_stores_trimmed [of emptyRequest "''''" "''8c1f''" False]
      b1 b2 b3 b4
    by (simp add: trim_padded)
qed

section \<open>Session token middleware\<close>

text \<open>
  The middleware reads the \<open>x-session-token\<close> header only: a request whose token is in
  the \<open>session_token\<close> query parameter and that has no cookie leaves it without a cookie.
\<close>

theorem query_token_counterexample:
  "headers queryTokenOnly ''cookie'' = None \<and>
   query queryTokenOnly ''session_token'' = Some ''s:sid1.bWFj'' \<and>
   headers (sessionTokenMiddleware queryTokenOnly) ''cookie'' = None"
  by (simp add: queryTokenOnly_def emptyRequest_def sessionTokenMiddleware_def truthyStr_def)

text \<open>
  Claim C5, as amended. A non-empty \<open>Cookie\<close> header wins: the request passes
  unchanged. Without one, a non-empty \<open>X-Session-Token\<close> header \<open>t\<close> becomes the cookie
  \<open>saml.sid=t\<close> and nothing else changes. Without such a header the request passes
  unchanged, whatever its query string holds.
\<close>

theorem sessionTokenMiddleware_contract:
  "(truthyStr (headers req ''cookie'') \<longrightarrow> sessionTokenMiddleware req = req) \<and>
   (\<not> truthyStr (headers req ''cookie'') \<and> headers req ''x-session-token'' = Some t \<and> t \<noteq> [] \<longrightarrow>
      sessionTokenMiddleware req =
        req\<lparr> headers := (headers req)(''cookie'' \<mapsto> ''saml.sid='' @ t) \<rparr>) \<and>
   (\<not> truthyStr (headers req ''x-session-token'') \<longrightarrow> sessionTokenMiddleware req = req)"
  by (simp add: sessionTokenMiddleware_def truthyStr_def template_def)

theorem sessionTokenMiddleware_contract_witness:
  "sessionTokenMiddleware cookieAndToken = cookieAndToken \<and>
   headers (sessionTokenMiddleware headerTokenOnly) ''cookie'' = Some ''saml.sid=s:sid1.bWFj'' \<and>
   sessionTokenMiddleware queryTokenOnly = queryTokenOnly"
proof -
  have c: "truthyStr (headers cookieAndToken ''cookie'')"
    by (simp add: cookieAndToken_def emptyRequest_def truthyStr_def)
  have h: "\<not> truthyStr (headers headerTokenOnly ''cookie'') \<and>
           headers headerTokenOnly ''x-session-token'' = Some ''s:sid1.bWFj'' \<and>
           ''s:sid1.bWFj'' \<noteq> []"
    by (simp add: headerTokenOnly_def emptyRequest_def truthyStr_def)
  have q: "\<not> truthyStr (headers queryTokenOnly ''x-session-token'')"
    by (simp add: queryTokenOnly_def emptyRequest_def truthyStr_def)
  show ?thesis
    using sessionTokenMiddleware_contract [of cookieAndToken "''''"]
      sessionTokenMiddleware_contract [of headerTokenOnly "''s:sid1.bWFj''"]
      sessionTokenMiddleware_contract [of queryTokenOnly "''''"] c h q
    by simp
qed

section \<open>The redirect of the assertion consumer\<close>

lemma includesStr_char: "includesStr s [c] \<longleftrightarrow> c \<in> set s"
  by (induction s) (auto simp: startsWith_def)

lemma startsWith_dashboardPath: "startsWith (dashboardPath r) ''/''"
  by (simp add: dashboardPath_def startsWith_def)

lemma getRedirectUrl_dashboard:
  "getRedirectUrl e req (dashboardPath r) =
     (if isMobileApp req then orDefault (MOBILE_APP_URL e) ''http://localhost''
      else orDefault (CLIENT_URL e) ''http://localhost:5173'') @ dashboardPath r"
  by (simp add: getRedirectUrl_def startsWith_dashboardPath Let_def)

text \<open>
  Whenever \<open>SESSION_SECRET\<close> is set, the redirect of a successful authentication whose
  session save succeeds is the base URL of the device class followed by the dashboard path
  of the role, and it carries the token for either device class.
\<close>

lemma acs_redirect_carries_token:
  assumes "reqUser req = Some p"
    and "\<not> (truthyStr (pendingCardId (session req)) \<and>
            orStr (employeeNumber p) (nameID p) \<noteq> pendingCardId (session req))"
    and "\<not> saveErr"
    and "SESSION_SECRET e = Some secret"
  shows "snd (acsHandler e hmac uuid saveErr req) =
           Redirect
             (let base = (if isMobileApp req
                          then orDefault (MOBILE_APP_URL e) ''http://localhost''
                          else orDefault (CLIENT_URL e) ''http://localhost:5173'');
                  r = orDefault (loginRole (session req)) ''worker'';
                  path = (if r = ''establishment'' then ''/dashboard/establishment''
                          else if r = ''department'' then ''/dashboard/department''
                          else ''/dashboard/worker'');
                  url = base @ path
              in url @ (if CHR ''?'' \<in> set url then ''&'' else ''?'') @ ''session_token='' @
                 encodeURIComponent
                   (''s:'' @ sessionID req @ ''.'' @ hmac secret (sessionID req)))"
proof -
  let ?sess1 = "if truthyStr (pendingCardId (session req))
                then (session req)\<lparr> pendingCardId := None \<rparr> else session req"
  let ?req1 = "req\<lparr> session := ?sess1\<lparr> user := Some (makeSessionUser p ?sess1) \<rparr> \<rparr>"
  have role: "loginRole ?sess1 = loginRole (session req)" by simp
  have mob: "isMobileApp ?req1 = isMobileApp req"
    by (rule isMobileApp_session) simp
  have sid: "sessionID ?req1 = sessionID req" by simp
  have "snd (acsHandler e hmac uuid saveErr req) =
          Redirect (appendSessionToken hmac e ?req1
            (getRedirectUrl e ?req1 (dashboardPath (orDefault (loginRole ?sess1) ''worker''))))"
    using assms(1-3) by (simp add: acsHandler_def makeSessionUser_def Let_def)
  also have "\<dots> = Redirect (appendSessionToken hmac e ?req1
            ((if isMobileApp req then orDefault (MOBILE_APP_URL e) ''http://localhost''
              else orDefault (CLIENT_URL e) ''http://localhost:5173'') @
             dashboardPath (orDefault (loginRole (session req)) ''worker'')))"
    by (simp only: getRedirectUrl_dashboard mob role)
  finally show ?thesis
    using assms(4)
    by (simp add: appendSessionToken_def signatureSign_def sid includesStr_char
        dashboardPath_def Let_def)
qed

lemma acs_redirect_examples:
  "snd (acsHandler exampleEnv exampleHmac ''8c1f'' False scanThenLogin) =
     Redirect ''http://localhost:5173/dashboard/worker?session_token=s%3Asid1.bWFj'' \<and>
   snd (acsHandler exampleEnv exampleHmac ''8c1f'' False mobileEstablishmentLogin) =
     Redirect ''workerconnect://app/dashboard/establishment?session_token=s%3Asid1.bWFj''"
proof -
  have w: "isMobileApp scanThenLogin = False"
    by (simp add: isMobileApp_def scanThenLogin_def emptyRequest_def emptySession_def
        orStr_def truthyStr_def orDefault_def mobileAppIdentifiers_def)
  have m: "isMobileApp mobileEstablishmentLogin = True"
    by (simp add: isMobileApp_def mobileEstablishmentLogin_def emptyRequest_def)
  have enc: "encodeURIComponent ''s:sid1.bWFj'' = ''s%3Asid1.bWFj''"
    by code_simp
  have 1: "snd (acsHandler exampleEnv exampleHmac ''8c1f'' False scanThenLogin) =
     Redirect ''http://localhost:5173/dashboard/worker?session_token=s%3Asid1.bWFj''"
    using acs_redirect_carries_token [of scanThenLogin cardHolder False exampleEnv "''k''"
        exampleHmac "''8c1f''"] w enc
    by (simp add: scanThenLogin_def emptyRequest_def emptySession_def cardHolder_def
        exampleEnv_def exampleHmac_def truthyStr_def orStr_def orDefault_def)
  have 2: "snd (acsHandler exampleEnv exampleHmac ''8c1f'' False mobileEstablishmentLogin) =
     Redirect ''workerconnect://app/dashboard/establishment?session_token=s%3Asid1.bWFj''"
    using acs_redirect_carries_token [of mobileEstablishmentLogin cardHolder False exampleEnv "''k''"
        exampleHmac "''8c1f''"] m enc
    by (simp add: mobileEstablishmentLogin_def emptyRequest_def emptySession_def cardHolder_def
        exampleEnv_def exampleHmac_def truthyStr_def orStr_def orDefault_def)
  show ?thesis using 1 2 by simp
qed

text \<open>
  Claim C6 says that the redirect of every successful authentication carries the signed
  session token, whatever the device class. The session middleware verifies with
  \<open>process.env.SESSION_SECRET\<close> or else a default; \<open>acsHandler\<close> signs with
  \<open>process.env.SESSION_SECRET\<close> alone. With the variable unset the server still runs on
  the default secret, \<open>signature.sign\<close> throws in the handler, and the redirect of a
  successful card login goes out without the token.
\<close>

theorem unset_secret_redirect_without_token:
  "SESSION_SECRET envNoSecret = None \<and>
   sessionSecret envNoSecret = ''your-session-secret-change-in-production'' \<and>
   snd (acsHandler envNoSecret exampleHmac ''8c1f'' False scanThenLogin) =
     Redirect ''http://localhost:5173/dashboard/worker'' \<and>
   snd (acsHandler envNoSecret exampleHmac ''8c1f'' False mobileEstablishmentLogin) =
     Redirect ''http://localhost/dashboard/establishment''"
  by code_simp

section \<open>The session key of the authenticated identity\<close>

text \<open>
  \<open>acsHandler\<close> keeps the authenticated identity under \<open>req.session.user\<close> and never
  writes \<open>req.session.samlUser\<close>, the key that \<open>requireSamlAuth\<close>, \<open>clearSamlSession\<close>
  and the login check of \<open>POST /card-scan\<close> read. The lemmas state what follows for
  every request; the theorems after them run the handlers on the requests above.
\<close>

lemma acsHandler_keeps_samlUser:
  "samlUser (session req) = None \<Longrightarrow>
   samlUser (session (fst (acsHandler e hmac uuid saveErr req))) = None"
  by (simp add: acsHandler_def clearSamlSession_def logout_def Let_def split: option.splits)

lemma acsHandler_stored_cardId:
  assumes "reqUser req = Some p"
    and "\<not> (truthyStr (pendingCardId (session req)) \<and>
            orStr (employeeNumber p) (nameID p) \<noteq> pendingCardId (session req))"
  shows "map_option cardId (user (session (fst (acsHandler e hmac uuid saveErr req)))) =
           Some (employeeNumber p)"
  using assms by (auto simp: acsHandler_def makeSessionUser_def Let_def)

lemma cardScan_without_samlUser:
  "samlUser (session req) = None \<Longrightarrow>
   user (session (fst (cardScan uuid saveErr req))) = user (session req) \<and>
   regenerated (fst (cardScan uuid saveErr req)) = regenerated req"
  by (simp add: cardScan_def Let_def)

lemma cardScan_logged_in_regenerates:
  "samlUser (session req) \<noteq> None \<Longrightarrow> reqUser req \<noteq> None \<Longrightarrow>
   \<not> invalidCardId (bodyCardId req) \<Longrightarrow>
   laterSession (fst (cardScan uuid saveErr req)) = emptySession"
  by (simp add: cardScan_def laterSession_def logout_def Let_def)

lemma logoutRoute_without_samlUser:
  "samlUser (session req) = None \<Longrightarrow>
   logoutRoute uuid req =
     (Some (session req),
      Json 401 (errorResponse uuid AUTHENTICATION_ERROR
                  ''SAML authentication required. Please login via /saml/login''
                  (JStr ''authentication'') JUndefined JUndefined))"
  by (simp add: logoutRoute_def requireSamlAuth_def)

text \<open>
  Claim C1 says that a login whose identifier (the employee number, else the name
  identifier) equals the pending card leaves an identity whose \<open>cardId\<close> is the scanned
  card. The handler compares with that fallback and then stores the employee number
  alone: for a profile that matches card 12345 by its name identifier the login succeeds
  and the stored \<open>cardId\<close> is \<open>undefined\<close>.
\<close>

theorem nameid_match_stores_no_cardId:
  "pendingCardId (session scanThenNameIdLogin) = Some ''12345'' \<and>
   orStr (employeeNumber nameIdOnlyProfile) (nameID nameIdOnlyProfile) = Some ''12345'' \<and>
   snd (acsHandler exampleEnv exampleHmac ''8c1f'' False scanThenNameIdLogin) =
     Redirect ''http://localhost:5173/dashboard/worker?session_token=s%3Asid1.bWFj'' \<and>
   map_option cardId
     (user (session (fst (acsHandler exampleEnv exampleHmac ''8c1f'' False scanThenNameIdLogin)))) =
     Some None"
  by code_simp

text \<open>
  Claim C3 says that a card scan on a session that holds an authenticated identity logs
  that identity out before the new card is stored. On the session a login has left
  behind, the scan of card 67890 stores the pending card and keeps the identity: the
  status route still reports the card holder as authenticated.
\<close>

theorem rescan_keeps_identity:
  "map_option cardId (user (session rescan)) = Some (Some ''12345'') \<and>
   reqUser rescan = Some cardHolder \<and>
   pendingCardId (session (fst (cardScan ''8c20'' False rescan))) = Some ''67890'' \<and>
   user (session (fst (cardScan ''8c20'' False rescan))) = user (session rescan) \<and>
   statusRoute (passportSession (fst (cardScan ''8c20'' False rescan))) =
     StatusJson True (map_option SessionUser (user establishedSession))"
  by code_simp

text \<open>
  Claim C4 says that \<open>POST /saml/logout\<close> from a session that holds an identity created
  by the assertion consumer destroys the session and answers with success. On such a
  session the route answers 401 and the session stays as it was.
\<close>

theorem logout_rejected_after_login:
  "map_option cardId (user (session logoutAfterLogin)) = Some (Some ''12345'') \<and>
   reqUser logoutAfterLogin = Some cardHolder \<and>
   logoutRoute ''8c21'' logoutAfterLogin =
     (Some establishedSession,
      Json 401 (errorResponse ''8c21'' AUTHENTICATION_ERROR
                  ''SAML authentication required. Please login via /saml/login''
                  (JStr ''authentication'') JUndefined JUndefined))"
  by code_simp

section \<open>Card mismatch\<close>



end
